theory Spec2Isabelle
  imports Complex_Main "HOL-Library.Sublist"
begin

section \<open>Floating-point values\<close>

text \<open>
  Tensor entries and Python floats are modelled by their value: a finite real, one of the two
  infinities, or NaN. The special values follow IEEE 754 (a NaN operand gives NaN,
  \<open>inf - inf\<close> and \<open>0 * inf\<close> give NaN, every comparison with NaN is false). Arithmetic on
  finite values is exact: rounding, overflow of finite results and the sign of zero are not
  modelled.
\<close>

datatype fl = Fin real | PInf | NInf | NaN

fun fl_neg :: "fl \<Rightarrow> fl" where
  "fl_neg (Fin a) = Fin (- a)"
| "fl_neg PInf = NInf"
| "fl_neg NInf = PInf"
| "fl_neg NaN = NaN"

fun fl_add :: "fl \<Rightarrow> fl \<Rightarrow> fl" where
  "fl_add (Fin a) (Fin b) = Fin (a + b)"
| "fl_add NaN y = NaN"
| "fl_add x NaN = NaN"
| "fl_add PInf NInf = NaN"
| "fl_add NInf PInf = NaN"
| "fl_add PInf y = PInf"
| "fl_add x PInf = PInf"
| "fl_add NInf y = NInf"
| "fl_add x NInf = NInf"

definition fl_sub :: "fl \<Rightarrow> fl \<Rightarrow> fl" where
  "fl_sub x y = fl_add x (fl_neg y)"

fun fl_sgn :: "fl \<Rightarrow> real" where
  "fl_sgn (Fin a) = sgn a"
| "fl_sgn PInf = 1"
| "fl_sgn NInf = - 1"
| "fl_sgn NaN = 0"

fun fl_mul :: "fl \<Rightarrow> fl \<Rightarrow> fl" where
  "fl_mul (Fin a) (Fin b) = Fin (a * b)"
| "fl_mul NaN y = NaN"
| "fl_mul x NaN = NaN"
| "fl_mul x y =
     (if fl_sgn x * fl_sgn y = 0 then NaN
      else if 0 < fl_sgn x * fl_sgn y then PInf else NInf)"

text \<open>
  Division of a tensor entry or a NumPy scalar. A finite value divided by zero gives an
  infinity or NaN (the divisors of this program are converted non-negative integers, so
  the zero is \<open>+0\<close>).
\<close>

fun fl_div :: "fl \<Rightarrow> fl \<Rightarrow> fl" where
  "fl_div (Fin a) (Fin b) =
     (if b = 0 then (if a = 0 then NaN else if 0 < a then PInf else NInf)
      else Fin (a / b))"
| "fl_div NaN y = NaN"
| "fl_div x NaN = NaN"
| "fl_div (Fin a) y = Fin 0"
| "fl_div x (Fin b) = (if 0 \<le> b then x else fl_neg x)"
| "fl_div x y = NaN"

fun fl_exp :: "fl \<Rightarrow> fl" where
  "fl_exp (Fin a) = Fin (exp a)"
| "fl_exp PInf = PInf"
| "fl_exp NInf = Fin 0"
| "fl_exp NaN = NaN"

fun fl_abs :: "fl \<Rightarrow> fl" where
  "fl_abs (Fin a) = Fin \<bar>a\<bar>"
| "fl_abs PInf = PInf"
| "fl_abs NInf = PInf"
| "fl_abs NaN = NaN"

text \<open>\<open>x ** 2\<close> and \<open>x.pow(2)\<close>.\<close>

definition fl_pow2 :: "fl \<Rightarrow> fl" where
  "fl_pow2 x = fl_mul x x"

fun fl_less :: "fl \<Rightarrow> fl \<Rightarrow> bool" where
  "fl_less (Fin a) (Fin b) = (a < b)"
| "fl_less NaN y = False"
| "fl_less x NaN = False"
| "fl_less x NInf = False"
| "fl_less PInf y = False"
| "fl_less NInf y = True"
| "fl_less x PInf = True"


primrec fl_sum :: "fl list \<Rightarrow> fl" where
  "fl_sum [] = Fin 0"
| "fl_sum (x # xs) = fl_add x (fl_sum xs)"

section \<open>Errors and two-dimensional tensors\<close>

text \<open>
  The exceptions the modelled code can raise. \<open>RuntimeError\<close> is what PyTorch raises when
  the sizes of the operands of an operation do not fit; \<open>ValueError\<close> is raised by the
  \<open>DataLoader\<close> constructor for a non-positive batch size and by \<open>np.concatenate\<close> for an
  empty list; \<open>ZeroDivisionError\<close> by the division of a Python float by zero.
\<close>

datatype pyerror = RuntimeError | ValueError | ZeroDivisionError

text \<open>
  A tensor of shape \<open>(n, d)\<close> is the list of its \<open>n\<close> rows, each a list of \<open>d\<close> entries.
  Every batch the program handles has at least one row.
\<close>

type_synonym tensor = "fl list list"

definition is_shape :: "nat \<Rightarrow> nat \<Rightarrow> 'a list list \<Rightarrow> bool" where
  "is_shape n d t = (length t = n \<and> list_all (\<lambda>r. length r = d) t)"

definition t_map :: "(fl \<Rightarrow> fl) \<Rightarrow> tensor \<Rightarrow> tensor" where
  "t_map f t = map (map f) t"

text \<open>\<open>torch.sum\<close> over all entries.\<close>

definition t_sum :: "tensor \<Rightarrow> fl" where
  "t_sum t = fl_sum (concat t)"

text \<open>
  Broadcasting along one dimension: two sizes fit when they are equal or one of them is 1,
  and the operand of size 1 is repeated.
\<close>

definition bcast :: "'a list \<Rightarrow> 'a list \<Rightarrow> pyerror + ('a \<times> 'a) list" where
  "bcast xs ys =
     (if length xs = length ys then Inr (zip xs ys)
      else if length xs = 1 then Inr (map (\<lambda>y. (hd xs, y)) ys)
      else if length ys = 1 then Inr (map (\<lambda>x. (x, hd ys)) xs)
      else Inl RuntimeError)"

primrec collect :: "(pyerror + 'a) list \<Rightarrow> pyerror + 'a list" where
  "collect [] = Inr []"
| "collect (r # rs) =
     (case r of Inl e \<Rightarrow> Inl e
      | Inr x \<Rightarrow> (case collect rs of Inl e \<Rightarrow> Inl e | Inr xs \<Rightarrow> Inr (x # xs)))"

definition row_binop :: "(fl \<Rightarrow> fl \<Rightarrow> fl) \<Rightarrow> fl list \<Rightarrow> fl list \<Rightarrow> pyerror + fl list" where
  "row_binop f r1 r2 =
     (case bcast r1 r2 of Inl e \<Rightarrow> Inl e
      | Inr ps \<Rightarrow> Inr (map (\<lambda>(a, b). f a b) ps))"

text \<open>An elementwise binary operation on two tensors, e.g. \<open>a - b\<close> or \<open>a * b\<close>.\<close>

definition t_binop :: "(fl \<Rightarrow> fl \<Rightarrow> fl) \<Rightarrow> tensor \<Rightarrow> tensor \<Rightarrow> pyerror + tensor" where
  "t_binop f a b =
     (case bcast a b of Inl e \<Rightarrow> Inl e
      | Inr ps \<Rightarrow> collect (map (\<lambda>(r1, r2). row_binop f r1 r2) ps))"

section \<open>The loss terms of \<open>simulations.py\<close>\<close>

text \<open>
  \<^verbatim>\<open>torch.sum(abs(reconstructed_x-inputs)**2) / batch_size\<close> in the batch loop, where
  \<open>batch_size\<close> is the command-line option, and
  \<^verbatim>\<open>torch.sum(abs(reconstructed_x-xval)**2) / reconstructed_x.shape[0]\<close> in the validation
  pass. The divisor is the parameter \<open>n\<close>.
\<close>

definition rec_err :: "tensor \<Rightarrow> tensor \<Rightarrow> nat \<Rightarrow> pyerror + fl" where
  "rec_err reconstructed_x inputs n =
     (case t_binop fl_sub reconstructed_x inputs of Inl e \<Rightarrow> Inl e
      | Inr d \<Rightarrow> Inr (fl_div (t_sum (t_map fl_pow2 (t_map fl_abs d))) (Fin (real n))))"

text \<open>
  \<^verbatim>\<open>-0.5 * torch.sum(1 + logvar - mu.pow(2) - logvar.exp()) / batch_size\<close>
  (and \<^verbatim>\<open>/ reconstructed_x.shape[0]\<close> in the validation pass).
\<close>

definition kl_divergence :: "tensor \<Rightarrow> tensor \<Rightarrow> nat \<Rightarrow> pyerror + fl" where
  "kl_divergence mu logvar n =
     (case t_binop fl_sub (t_map (fl_add (Fin 1)) logvar) (t_map fl_pow2 mu) of
        Inl e \<Rightarrow> Inl e
      | Inr a \<Rightarrow>
          (case t_binop fl_sub a (t_map fl_exp logvar) of Inl e \<Rightarrow> Inl e
           | Inr b \<Rightarrow> Inr (fl_div (fl_mul (Fin (- (1 / 2))) (t_sum b)) (Fin (real n)))))"

text \<open>\<^verbatim>\<open>loss = rec_err + beta * kl_divergence\<close>\<close>

definition loss :: "fl \<Rightarrow> fl \<Rightarrow> fl \<Rightarrow> fl" where
  "loss rec beta kl = fl_add rec (fl_mul beta kl)"

section \<open>The autoencoder of \<open>simulations.py\<close>\<close>

text \<open>
  A PyTorch layer (\<open>nn.Linear\<close>, or \<open>nn.LSTM\<close> run for one time step from the zero state) is
  given by the feature size it expects, the size it produces and the function it computes
  on one sample; the weights live inside that function. The layers of this program treat
  the samples of a batch independently. Applied to a batch whose feature size is not the
  expected one, the layer raises \<open>RuntimeError\<close> before it computes anything.
\<close>

record layer =
  in_features :: nat
  out_features :: nat
  apply_row :: "fl list \<Rightarrow> fl list"

definition layer_forward :: "layer \<Rightarrow> tensor \<Rightarrow> pyerror + tensor" where
  "layer_forward l x =
     (if list_all (\<lambda>r. length r = in_features l) x then Inr (map (apply_row l) x)
      else Inl RuntimeError)"

record vae =
  input_dim :: nat
  hidden_dim :: nat
  latent_dim :: nat
  encoder_lstm :: layer
  encoder_fc_mu :: layer
  encoder_fc_logvar :: layer
  decoder_l1 :: layer
  decoder_l2 :: layer

text \<open>
  \<open>VAE.__init__\<close>: the layers get their sizes from the three dimensions; their initial
  weights are drawn from the process-wide generator by the PyTorch constructors
  \<open>lstm_init\<close> and \<open>linear_init\<close>, which are parameters.
\<close>

definition VAE ::
  "(nat \<Rightarrow> nat \<Rightarrow> 'g \<Rightarrow> (fl list \<Rightarrow> fl list) \<times> 'g) \<Rightarrow>
   (nat \<Rightarrow> nat \<Rightarrow> 'g \<Rightarrow> (fl list \<Rightarrow> fl list) \<times> 'g) \<Rightarrow>
   nat \<Rightarrow> nat \<Rightarrow> nat \<Rightarrow> 'g \<Rightarrow> vae \<times> 'g" where
  "VAE lstm_init linear_init i h l g =
     (case lstm_init i h g of (k1, g1) \<Rightarrow>
      case linear_init h l g1 of (k2, g2) \<Rightarrow>
      case linear_init h l g2 of (k3, g3) \<Rightarrow>
      case linear_init l h g3 of (k4, g4) \<Rightarrow>
      case lstm_init h i g4 of (k5, g5) \<Rightarrow>
        (\<lparr>input_dim = i, hidden_dim = h, latent_dim = l,
          encoder_lstm = \<lparr>in_features = i, out_features = h, apply_row = k1\<rparr>,
          encoder_fc_mu = \<lparr>in_features = h, out_features = l, apply_row = k2\<rparr>,
          encoder_fc_logvar = \<lparr>in_features = h, out_features = l, apply_row = k3\<rparr>,
          decoder_l1 = \<lparr>in_features = l, out_features = h, apply_row = k4\<rparr>,
          decoder_l2 = \<lparr>in_features = h, out_features = i, apply_row = k5\<rparr>\<rparr>, g5))"

text \<open>
  \<open>VAE.encode\<close>: the hidden state of the LSTM after the single step
  (\<open>x.unsqueeze(1)\<close> and \<open>hd.squeeze(0)\<close> only add and remove a dimension of size 1), then the
  two linear layers.
\<close>

definition encode :: "vae \<Rightarrow> tensor \<Rightarrow> pyerror + (tensor \<times> tensor)" where
  "encode v x =
     (case layer_forward (encoder_lstm v) x of Inl e \<Rightarrow> Inl e
      | Inr hid \<Rightarrow>
          (case layer_forward (encoder_fc_mu v) hid of Inl e \<Rightarrow> Inl e
           | Inr mu \<Rightarrow>
               (case layer_forward (encoder_fc_logvar v) hid of Inl e \<Rightarrow> Inl e
                | Inr logvar \<Rightarrow> Inr (mu, logvar))))"

text \<open>
  \<open>torch.randn_like\<close>: one draw of the process-wide generator for every entry, in row-major
  order. \<open>normal\<close> is the generator's draw of one standard normal value.
\<close>

primrec randn_row :: "('g \<Rightarrow> fl \<times> 'g) \<Rightarrow> 'a list \<Rightarrow> 'g \<Rightarrow> fl list \<times> 'g" where
  "randn_row normal [] g = ([], g)"
| "randn_row normal (x # xs) g =
     (case normal g of (e, g1) \<Rightarrow>
      case randn_row normal xs g1 of (es, g2) \<Rightarrow> (e # es, g2))"

primrec randn_like :: "('g \<Rightarrow> fl \<times> 'g) \<Rightarrow> 'a list list \<Rightarrow> 'g \<Rightarrow> tensor \<times> 'g" where
  "randn_like normal [] g = ([], g)"
| "randn_like normal (r # rs) g =
     (case randn_row normal r g of (e, g1) \<Rightarrow>
      case randn_like normal rs g1 of (es, g2) \<Rightarrow> (e # es, g2))"

text \<open>\<open>VAE.sample_z\<close>: \<^verbatim>\<open>std = torch.exp(0.5 * logvar)\<close>, \<^verbatim>\<open>mu + eps * std\<close>.\<close>

definition sample_z ::
  "('g \<Rightarrow> fl \<times> 'g) \<Rightarrow> tensor \<Rightarrow> tensor \<Rightarrow> 'g \<Rightarrow> pyerror + (tensor \<times> 'g)" where
  "sample_z normal mu logvar g =
     (let std = t_map (\<lambda>a. fl_exp (fl_mul (Fin (1 / 2)) a)) logvar
      in case randn_like normal std g of (eps, g1) \<Rightarrow>
         (case t_binop fl_mul eps std of Inl e \<Rightarrow> Inl e
          | Inr es \<Rightarrow>
              (case t_binop fl_add mu es of Inl e \<Rightarrow> Inl e
               | Inr z \<Rightarrow> Inr (z, g1))))"

definition decode :: "vae \<Rightarrow> tensor \<Rightarrow> pyerror + tensor" where
  "decode v z =
     (case layer_forward (decoder_l1 v) z of Inl e \<Rightarrow> Inl e
      | Inr out \<Rightarrow> layer_forward (decoder_l2 v) out)"

definition forward ::
  "('g \<Rightarrow> fl \<times> 'g) \<Rightarrow> vae \<Rightarrow> tensor \<Rightarrow> 'g \<Rightarrow>
   pyerror + ((tensor \<times> tensor \<times> tensor) \<times> 'g)" where
  "forward normal v x g =
     (case encode v x of Inl e \<Rightarrow> Inl e
      | Inr (mu, logvar) \<Rightarrow>
          (case sample_z normal mu logvar g of Inl e \<Rightarrow> Inl e
           | Inr (z, g1) \<Rightarrow>
               (case decode v z of Inl e \<Rightarrow> Inl e
                | Inr reconstructed_x \<Rightarrow> Inr ((reconstructed_x, mu, logvar), g1))))"

text \<open>
  What the constructors guarantee of a model: the layer sizes of \<open>VAE.__init__\<close>, and every
  layer maps a sample of its input size to one of its output size.
\<close>

definition layer_ok :: "layer \<Rightarrow> nat \<Rightarrow> nat \<Rightarrow> bool" where
  "layer_ok l i h =
     (in_features l = i \<and> out_features l = h \<and>
      (\<forall>r. length r = i \<longrightarrow> length (apply_row l r) = h))"

definition vae_ok :: "vae \<Rightarrow> bool" where
  "vae_ok v =
     (layer_ok (encoder_lstm v) (input_dim v) (hidden_dim v) \<and>
      layer_ok (encoder_fc_mu v) (hidden_dim v) (latent_dim v) \<and>
      layer_ok (encoder_fc_logvar v) (hidden_dim v) (latent_dim v) \<and>
      layer_ok (decoder_l1 v) (latent_dim v) (hidden_dim v) \<and>
      layer_ok (decoder_l2 v) (hidden_dim v) (input_dim v))"

section \<open>Python control flow and the \<open>DataLoader\<close>\<close>

text \<open>
  The batches of a \<open>DataLoader\<close> over the given samples: consecutive groups of
  \<open>batch_size\<close> samples, the last one shorter when the number of samples is not a multiple.
\<close>

function chunks :: "nat \<Rightarrow> 'a list \<Rightarrow> 'a list list" where
  "chunks n xs = (if n = 0 \<or> xs = [] then [] else take n xs # chunks n (drop n xs))"
  by pat_completeness auto
termination
  by (relation "measure (\<lambda>(n, xs). length xs)") auto

declare chunks.simps [simp del]

text \<open>\<open>len(data_loader)\<close>: the number of batches, computed from the number of samples.\<close>

definition loader_len :: "nat \<Rightarrow> nat \<Rightarrow> nat" where
  "loader_len n batch_size = (n + batch_size - 1) div batch_size"

text \<open>
  \<^verbatim>\<open>for epoch in range(...): body\<close> where the body may \<open>break\<close> or raise. The result is the
  list of the states after each completed pass through the body, and the exception that
  ended the loop, if any.
\<close>

fun for_epochs ::
  "(nat \<Rightarrow> 's \<Rightarrow> pyerror + ('s \<times> bool)) \<Rightarrow> nat list \<Rightarrow> 's \<Rightarrow> 's list \<times> pyerror option" where
  "for_epochs body [] s = ([], None)"
| "for_epochs body (i # is) s =
     (case body i s of Inl e \<Rightarrow> ([], Some e)
      | Inr (s', brk) \<Rightarrow>
          if brk then ([s'], None)
          else (case for_epochs body is s' of (tr, r) \<Rightarrow> (s' # tr, r)))"

text \<open>
  The early-stopping block at the end of an epoch, the same in both scripts:
  \<^verbatim>\<open>
  if val_loss < best_val_loss - min_delta:
      best_val_loss = val_loss
      counter = 0
  else:
      counter += 1
      if counter >= patience:
          break
  \<close>
  The result is the new counter, the new best loss and whether the loop is left.
\<close>

definition early_stopping :: "nat \<Rightarrow> fl \<Rightarrow> nat \<Rightarrow> fl \<Rightarrow> fl \<Rightarrow> (nat \<times> fl) \<times> bool" where
  "early_stopping patience min_delta counter best_val_loss val_loss =
     (if fl_less val_loss (fl_sub best_val_loss min_delta) then ((0, val_loss), False)
      else ((counter + 1, best_val_loss), patience \<le> counter + 1))"

section \<open>The training loop of \<open>simulations.py\<close>\<close>

text \<open>
  The library operations the script calls, as parameters: the generator's draw of one
  standard normal value, the weight initialisers of the layer constructors, the order in
  which a shuffling \<open>DataLoader\<close> yields the samples, and the optimizer
  (\<open>loss.backward()\<close>, \<open>clip_grad_norm_\<close> and \<open>optimizer.step()\<close> together change the model and
  the optimizer, as a function of the model, the batch and the generator state before the
  forward pass, which fixes the noise of that pass; \<open>scheduler.step()\<close> changes the
  optimizer). \<open>'g\<close> is the state of the process-wide generator, \<open>'o\<close> the state of optimizer
  and scheduler.
\<close>

record ('g, 'o) torch =
  normal :: "'g \<Rightarrow> fl \<times> 'g"
  lstm_init :: "nat \<Rightarrow> nat \<Rightarrow> 'g \<Rightarrow> (fl list \<Rightarrow> fl list) \<times> 'g"
  linear_init :: "nat \<Rightarrow> nat \<Rightarrow> 'g \<Rightarrow> (fl list \<Rightarrow> fl list) \<times> 'g"
  shuffle :: "tensor \<Rightarrow> 'g \<Rightarrow> tensor \<times> 'g"
  adam :: "fl \<Rightarrow> 'o"
  optimizer_step :: "'o \<Rightarrow> vae \<Rightarrow> tensor \<Rightarrow> 'g \<Rightarrow> vae \<times> 'o"
  scheduler_step :: "'o \<Rightarrow> 'o"

text \<open>
  The command-line options of \<open>simulations.py\<close>. The three sizes are natural numbers (a
  negative size is rejected by the constructor that receives it, as 0 is by the
  \<open>DataLoader\<close>); the number of epochs is an integer, and \<open>range\<close> of a negative number is
  empty.
\<close>

record args =
  beta_kl :: fl
  batch :: nat
  latent :: nat
  hidden :: nat
  epochs :: int
  rate :: fl

record ('g, 'o) state =
  model :: vae
  optimizer :: 'o
  generator :: 'g
  counter :: nat
  best_val_loss :: fl
  val_loss :: "fl list"
  train_loss :: "fl list"
  train_kl_loss :: "fl list"
  train_rec_loss :: "fl list"

text \<open>
  The running sums of one epoch, with the model, optimizer and generator as the batch loop
  leaves them.
\<close>

record ('g, 'o) running =
  r_model :: vae
  r_optimizer :: 'o
  r_generator :: 'g
  running_loss :: fl
  running_kl_loss :: fl
  running_rec_loss :: fl

text \<open>The body of the loop over the batches (lines 428 to 461).\<close>

definition batch_step ::
  "('g, 'o) torch \<Rightarrow> args \<Rightarrow> ('g, 'o) running \<Rightarrow> tensor \<Rightarrow> pyerror + ('g, 'o) running" where
  "batch_step env a r inputs =
     (case forward (normal env) (r_model r) inputs (r_generator r) of Inl e \<Rightarrow> Inl e
      | Inr ((reconstructed_x, mu, logvar), g1) \<Rightarrow>
      (case rec_err reconstructed_x inputs (batch a) of Inl e \<Rightarrow> Inl e
       | Inr re \<Rightarrow>
       (case kl_divergence mu logvar (batch a) of Inl e \<Rightarrow> Inl e
        | Inr kl \<Rightarrow>
          (case optimizer_step env (r_optimizer r) (r_model r) inputs (r_generator r) of
             (v, opt) \<Rightarrow>
               Inr \<lparr>r_model = v, r_optimizer = opt, r_generator = g1,
                    running_loss = fl_add (running_loss r) (loss re (beta_kl a) kl),
                    running_kl_loss = fl_add (running_kl_loss r) kl,
                    running_rec_loss = fl_add (running_rec_loss r) re\<rparr>))))"

primrec train_batches ::
  "('g, 'o) torch \<Rightarrow> args \<Rightarrow> tensor list \<Rightarrow> ('g, 'o) running \<Rightarrow> pyerror + ('g, 'o) running" where
  "train_batches env a [] r = Inr r"
| "train_batches env a (inputs # rest) r =
     (case batch_step env a r inputs of Inl e \<Rightarrow> Inl e
      | Inr r1 \<Rightarrow> train_batches env a rest r1)"

text \<open>
  The validation pass (lines 465 to 480): one forward pass over \<open>xval\<close>, the two terms divided
  by \<open>reconstructed_x.shape[0]\<close>. The result is the combined loss and the generator.
\<close>

definition validation ::
  "('g, 'o) torch \<Rightarrow> args \<Rightarrow> vae \<Rightarrow> tensor \<Rightarrow> 'g \<Rightarrow> pyerror + (fl \<times> 'g)" where
  "validation env a v xval g =
     (case forward (normal env) v xval g of Inl e \<Rightarrow> Inl e
      | Inr ((reconstructed_x, mu, logvar), g1) \<Rightarrow>
      (case rec_err reconstructed_x xval (length reconstructed_x) of Inl e \<Rightarrow> Inl e
       | Inr re \<Rightarrow>
       (case kl_divergence mu logvar (length reconstructed_x) of Inl e \<Rightarrow> Inl e
        | Inr kl \<Rightarrow> Inr (loss re (beta_kl a) kl, g1))))"

text \<open>\<open>patience = 5\<close> and \<open>min_delta = 0.005\<close> of \<open>simulations.py\<close>.\<close>

definition patience :: nat where
  "patience = 5"

definition min_delta :: fl where
  "min_delta = Fin (5 / 1000)"

text \<open>
  One pass through the body of the epoch loop (lines 421 to 514). The division of the
  Python float \<open>running_loss\<close> by \<open>len(data_loader)\<close> raises when there is no batch.
\<close>

definition epoch_body ::
  "('g, 'o) torch \<Rightarrow> args \<Rightarrow> tensor \<Rightarrow> tensor \<Rightarrow> nat \<Rightarrow> ('g, 'o) state \<Rightarrow>
   pyerror + (('g, 'o) state \<times> bool)" where
  "epoch_body env a xtrain xval epoch s =
     (case shuffle env xtrain (generator s) of (xs, g0) \<Rightarrow>
      (case train_batches env a (chunks (batch a) xs)
              \<lparr>r_model = model s, r_optimizer = optimizer s, r_generator = g0,
               running_loss = Fin 0, running_kl_loss = Fin 0, running_rec_loss = Fin 0\<rparr> of
         Inl e \<Rightarrow> Inl e
       | Inr r \<Rightarrow>
       (case validation env a (r_model r) xval (r_generator r) of Inl e \<Rightarrow> Inl e
        | Inr (l, g2) \<Rightarrow>
          (let running_loss_val = fl_add (Fin 0) l;
               n = loader_len (length xtrain) (batch a)
           in if n = 0 then Inl ZeroDivisionError
              else
                (let mean_loss = fl_div (running_loss r) (Fin (real n));
                     mean_rec_loss = fl_div (running_rec_loss r) (Fin (real n));
                     mean_kl_loss = fl_div (running_kl_loss r) (Fin (real n));
                     mean_loss_val = fl_div running_loss_val (Fin (real n))
                 in case early_stopping patience min_delta (counter s) (best_val_loss s)
                           mean_loss_val of
                      ((c, b), brk) \<Rightarrow>
                        Inr (\<lparr>model = r_model r,
                              optimizer = scheduler_step env (r_optimizer r),
                              generator = g2, counter = c, best_val_loss = b,
                              val_loss = val_loss s @ [mean_loss_val],
                              train_loss = train_loss s @ [mean_loss],
                              train_kl_loss = train_kl_loss s @ [mean_kl_loss],
                              train_rec_loss = train_rec_loss s @ [mean_rec_loss]\<rparr>, brk))))))"

text \<open>
  The script from the construction of the \<open>DataLoader\<close> on. \<open>xtrain\<close> and \<open>xval\<close> are the
  two arrays of \<open>train_test_split\<close>, \<open>g\<close> the state of the generator when the script starts:
  the script never seeds it. The \<open>DataLoader\<close> constructor rejects a batch size of 0.
\<close>

definition initial_state :: "('g, 'o) torch \<Rightarrow> args \<Rightarrow> tensor \<Rightarrow> 'g \<Rightarrow> ('g, 'o) state" where
  "initial_state env a xtrain g =
     (case VAE (lstm_init env) (linear_init env)
             (case xtrain of [] \<Rightarrow> 0 | r # _ \<Rightarrow> length r) (hidden a) (latent a) g of
        (v, g1) \<Rightarrow>
          \<lparr>model = v, optimizer = adam env (rate a), generator = g1, counter = 0,
           best_val_loss = PInf, val_loss = [], train_loss = [], train_kl_loss = [],
           train_rec_loss = []\<rparr>)"

definition training ::
  "('g, 'o) torch \<Rightarrow> args \<Rightarrow> tensor \<Rightarrow> tensor \<Rightarrow> 'g \<Rightarrow>
   ('g, 'o) state list \<times> pyerror option" where
  "training env a xtrain xval g =
     (if batch a = 0 then ([], Some ValueError)
      else for_epochs (epoch_body env a xtrain xval) [0..<nat (epochs a)]
             (initial_state env a xtrain g))"

section \<open>\<open>main\<close> of \<open>snDGM/sndgm/avae.py\<close>\<close>

text \<open>
  \<open>main\<close> takes its model, its training step and its loss from the module \<open>utils\<close>, and the
  split of the data from scikit-learn. They are parameters: \<open>'m\<close> is the model, \<open>'o\<close> the
  optimizer with its scheduler, \<open>'g\<close> the state of the process-wide generator. The
  arguments of each parameter are the arguments of the call in \<open>main\<close>, and the generator
  where the callee can draw from it.
\<close>

record ('m, 'g, 'o) utils =
  train_test_split :: "int \<Rightarrow> tensor \<Rightarrow> pyerror + (tensor \<times> tensor)"
  normalize_data :: "tensor \<Rightarrow> tensor"
  new_model :: "nat \<Rightarrow> nat \<Rightarrow> nat \<Rightarrow> 'g \<Rightarrow> 'm \<times> 'g"
  new_optimizer :: "fl \<Rightarrow> int \<Rightarrow> 'o"
  train_vae :: "'m \<Rightarrow> 'o \<Rightarrow> tensor \<Rightarrow> nat \<Rightarrow> string \<Rightarrow> 'g \<Rightarrow> pyerror + (fl \<times> 'm \<times> 'o \<times> 'g)"
  model_eval :: "'m \<Rightarrow> 'm"
  model_forward :: "'m \<Rightarrow> tensor \<Rightarrow> 'g \<Rightarrow> pyerror + ((tensor \<times> tensor \<times> tensor) \<times> 'g)"
  model_encode :: "'m \<Rightarrow> tensor \<Rightarrow> pyerror + (tensor \<times> tensor)"
  loss_function :: "tensor \<Rightarrow> tensor \<Rightarrow> tensor \<Rightarrow> tensor \<Rightarrow> string \<Rightarrow> pyerror + fl"
  sched_step :: "'o \<Rightarrow> 'o"

text \<open>The command-line options of \<open>avae.py\<close> that \<open>main\<close> reads.\<close>

record main_args =
  seed :: int
  main_beta :: fl
  main_batch :: nat
  main_latent :: nat
  main_hidden :: nat
  main_epochs :: int
  main_rate :: fl
  normalize :: bool
  step_size :: int
  main_min_delta :: fl
  loss_type :: string

record ('m, 'g, 'o) main_state =
  m_model :: 'm
  m_optimizer :: 'o
  m_generator :: 'g
  m_counter :: nat
  m_best_val_loss :: fl
  train_losses :: "fl list"
  val_losses :: "fl list"

text \<open>The loop over \<open>val_loader\<close> (lines 113 to 116), which adds up the losses of the batches.\<close>

primrec validate_batches ::
  "('m, 'g, 'o) utils \<Rightarrow> main_args \<Rightarrow> 'm \<Rightarrow> tensor list \<Rightarrow> fl \<Rightarrow> 'g \<Rightarrow> pyerror + (fl \<times> 'g)" where
  "validate_batches u a m [] acc g = Inr (acc, g)"
| "validate_batches u a m (x # xs) acc g =
     (case model_forward u m x g of Inl e \<Rightarrow> Inl e
      | Inr ((recon_batch, mu, logvar), g1) \<Rightarrow>
      (case loss_function u recon_batch x mu logvar (loss_type a) of Inl e \<Rightarrow> Inl e
       | Inr l \<Rightarrow> validate_batches u a m xs (fl_add acc l) g1))"

text \<open>\<open>patience = 10\<close> of \<open>main\<close>.\<close>

definition main_patience :: nat where
  "main_patience = 10"

text \<open>
  One pass through the body of the epoch loop of \<open>main\<close> (lines 105 to 135). The scheduler
  is stepped after the early-stopping block, so not in the epoch that leaves the loop.
\<close>

definition main_epoch ::
  "('m, 'g, 'o) utils \<Rightarrow> main_args \<Rightarrow> tensor \<Rightarrow> tensor \<Rightarrow> nat \<Rightarrow> ('m, 'g, 'o) main_state \<Rightarrow>
   pyerror + (('m, 'g, 'o) main_state \<times> bool)" where
  "main_epoch u a train_data val_data epoch s =
     (case train_vae u (m_model s) (m_optimizer s) train_data (main_batch a) (loss_type a)
             (m_generator s) of
        Inl e \<Rightarrow> Inl e
      | Inr (t_loss, m1, o1, g1) \<Rightarrow>
        (case validate_batches u a (model_eval u m1) (chunks (main_batch a) val_data)
                (Fin 0) g1 of
           Inl e \<Rightarrow> Inl e
         | Inr (vsum, g2) \<Rightarrow>
             if length val_data = 0 then Inl ZeroDivisionError
             else
               (let v_loss = fl_div vsum (Fin (real (length val_data)))
                in case early_stopping main_patience (main_min_delta a) (m_counter s)
                          (m_best_val_loss s) v_loss of
                     ((c, b), brk) \<Rightarrow>
                       Inr (\<lparr>m_model = model_eval u m1,
                             m_optimizer = (if brk then o1 else sched_step u o1),
                             m_generator = g2, m_counter = c, m_best_val_loss = b,
                             train_losses = train_losses s @ [t_loss],
                             val_losses = val_losses s @ [v_loss]\<rparr>, brk))))"

text \<open>
  The export of the embeddings (lines 143 to 152): the batches of the whole data in their
  order, \<open>mu\<close> of \<open>model.encode\<close> for each, and \<open>np.concatenate\<close>, which raises for an empty list
  and for rows of different lengths. \<open>enc\<close> is \<open>model.encode\<close>.
\<close>

definition save_embeddings ::
  "(tensor \<Rightarrow> pyerror + (tensor \<times> tensor)) \<Rightarrow> nat \<Rightarrow> tensor \<Rightarrow> pyerror + tensor" where
  "save_embeddings enc b data =
     (case collect (map (\<lambda>x. case enc x of Inl e \<Rightarrow> Inl e | Inr (mu, logvar) \<Rightarrow> Inr mu)
                     (chunks b data)) of
        Inl e \<Rightarrow> Inl e
      | Inr embeddings \<Rightarrow>
          (case embeddings of [] \<Rightarrow> Inl ValueError
           | m # ms \<Rightarrow>
               (case concat embeddings of [] \<Rightarrow> Inr []
                | r # rs \<Rightarrow>
                    if list_all (\<lambda>q. length q = length r) rs then Inr (r # rs)
                    else Inl ValueError)))"

record main_out =
  out_train_losses :: "fl list"
  out_val_losses :: "fl list"
  out_embeddings :: tensor

definition main_initial ::
  "('m, 'g, 'o) utils \<Rightarrow> main_args \<Rightarrow> tensor \<Rightarrow> 'g \<Rightarrow> ('m, 'g, 'o) main_state" where
  "main_initial u a train_data g =
     (case new_model u (case train_data of [] \<Rightarrow> 0 | r # _ \<Rightarrow> length r)
             (main_latent a) (main_hidden a) g of
        (m, g1) \<Rightarrow>
          \<lparr>m_model = m, m_optimizer = new_optimizer u (main_rate a) (step_size a),
           m_generator = g1, m_counter = 0, m_best_val_loss = PInf,
           train_losses = [], val_losses = []\<rparr>)"

definition main_loop ::
  "('m, 'g, 'o) utils \<Rightarrow> main_args \<Rightarrow> tensor \<Rightarrow> tensor \<Rightarrow> ('m, 'g, 'o) main_state \<Rightarrow>
   ('m, 'g, 'o) main_state list \<times> pyerror option" where
  "main_loop u a train_data val_data s0 =
     for_epochs (main_epoch u a train_data val_data) [0..<nat (main_epochs a)] s0"

text \<open>
  \<open>main\<close> from the loaded data on. \<open>seed\<close> is passed to \<open>train_test_split\<close> and to nothing
  else; \<open>g\<close> is the state of the generator when \<open>main\<close> starts.
\<close>

definition main ::
  "('m, 'g, 'o) utils \<Rightarrow> main_args \<Rightarrow> tensor \<Rightarrow> 'g \<Rightarrow> pyerror + main_out" where
  "main u a data0 g =
     (let data = (if normalize a then normalize_data u data0 else data0)
      in case train_test_split u (seed a) data of Inl e \<Rightarrow> Inl e
         | Inr (train_data, val_data) \<Rightarrow>
             if main_batch a = 0 then Inl ValueError
             else
               (let s0 = main_initial u a train_data g
                in case main_loop u a train_data val_data s0 of
                     (tr, Some e) \<Rightarrow> Inl e
                   | (tr, None) \<Rightarrow>
                       (let s = last (s0 # tr)
                        in case save_embeddings (model_encode u (model_eval u (m_model s)))
                                  (main_batch a) data of
                             Inl e \<Rightarrow> Inl e
                           | Inr embeddings \<Rightarrow>
                               Inr \<lparr>out_train_losses = train_losses s,
                                    out_val_losses = val_losses s,
                                    out_embeddings = embeddings\<rparr>)))"

section \<open>Properties of a run\<close>

text \<open>
  The early-stopping rule read on the states \<open>tr\<close> of a run that started in \<open>s0\<close>, with
  \<open>cnt\<close>, \<open>best\<close> and \<open>vals\<close> the counter, the best validation loss and the validation
  curve of a state. After every epoch: the counter and the best loss follow the rule for
  the validation loss of that epoch; an epoch that leaves the counter at \<open>p\<close> or more is the
  last one; and a run that ends below \<open>p\<close> has used its \<open>budget\<close> of epochs or was ended by
  an exception.
\<close>

definition early_stop_trace ::
  "nat \<Rightarrow> fl \<Rightarrow> nat \<Rightarrow> ('s \<Rightarrow> nat) \<Rightarrow> ('s \<Rightarrow> fl) \<Rightarrow> ('s \<Rightarrow> fl list) \<Rightarrow>
   's \<Rightarrow> 's list \<Rightarrow> pyerror option \<Rightarrow> bool" where
  "early_stop_trace p delta budget cnt best vals s0 tr err =
     (\<forall>k < length tr.
        (if fl_less (last (vals (tr ! k))) (fl_sub (best ((s0 # tr) ! k)) delta)
         then best (tr ! k) = last (vals (tr ! k)) \<and> cnt (tr ! k) = 0
         else best (tr ! k) = best ((s0 # tr) ! k) \<and> cnt (tr ! k) = cnt ((s0 # tr) ! k) + 1) \<and>
        (p \<le> cnt (tr ! k) \<longrightarrow> Suc k = length tr) \<and>
        (Suc k = length tr \<and> cnt (tr ! k) < p \<longrightarrow> err \<noteq> None \<or> length tr = budget))"


text \<open>
  A validation loss that is NaN or \<open>+inf\<close>, read on the states of a run: the epoch counts as
  one without improvement, so the best loss stays and the counter goes up by one, and
  unless the counter has reached \<open>p\<close> or the epochs are used up the run goes on with the
  next epoch (which, like every epoch, may raise).
\<close>

definition non_finite_trace ::
  "nat \<Rightarrow> nat \<Rightarrow> ('s \<Rightarrow> nat) \<Rightarrow> ('s \<Rightarrow> fl) \<Rightarrow> ('s \<Rightarrow> fl list) \<Rightarrow>
   's \<Rightarrow> 's list \<Rightarrow> pyerror option \<Rightarrow> bool" where
  "non_finite_trace p budget cnt best vals s0 tr err =
     (\<forall>k < length tr.
        last (vals (tr ! k)) = NaN \<or> last (vals (tr ! k)) = PInf \<longrightarrow>
        cnt (tr ! k) = cnt ((s0 # tr) ! k) + 1 \<and> best (tr ! k) = best ((s0 # tr) ! k) \<and>
        (cnt (tr ! k) < p \<and> Suc k < budget \<longrightarrow> Suc k < length tr \<or> err \<noteq> None))"

text \<open>
  What PyTorch guarantees of the operations that are parameters: a constructor returns a
  layer of the sizes asked for, an optimizer step changes weights and no sizes, and a
  shuffling \<open>DataLoader\<close> yields samples of its dataset.
\<close>

definition torch_ok :: "('g, 'o) torch \<Rightarrow> bool" where
  "torch_ok env =
     ((\<forall>i h g r. length r = i \<longrightarrow> length (fst (lstm_init env i h g) r) = h) \<and>
      (\<forall>i h g r. length r = i \<longrightarrow> length (fst (linear_init env i h g) r) = h) \<and>
      (\<forall>opt v x g. vae_ok v \<longrightarrow>
         vae_ok (fst (optimizer_step env opt v x g)) \<and>
         input_dim (fst (optimizer_step env opt v x g)) = input_dim v) \<and>
      (\<forall>x g. set (fst (shuffle env x g)) \<subseteq> set x))"

section \<open>A small instance\<close>

text \<open>
  An instance of the parameters on which the definitions can be run. The generator is the
  list of the values it will draw (and draws 0 once the list is used up). A layer with the
  weight \<open>w\<close> multiplies the sum of its input by \<open>w\<close> and returns it on every output. The
  LSTM layers have the weight 1, the linear layers the weight \<open>w\<close>; the \<open>DataLoader\<close> keeps
  the order of the samples and the optimizer leaves the model as it is.
\<close>

definition example_normal :: "fl list \<Rightarrow> fl \<times> fl list" where
  "example_normal g = (case g of [] \<Rightarrow> (Fin 0, []) | e # es \<Rightarrow> (e, es))"

definition example_layer :: "fl \<Rightarrow> nat \<Rightarrow> nat \<Rightarrow> 'g \<Rightarrow> (fl list \<Rightarrow> fl list) \<times> 'g" where
  "example_layer w i h g = (\<lambda>r. replicate h (fl_mul w (fl_sum r)), g)"

definition example_torch :: "fl \<Rightarrow> (fl list, unit) torch" where
  "example_torch w =
     \<lparr>normal = example_normal,
      lstm_init = example_layer (Fin 1),
      linear_init = example_layer w,
      shuffle = (\<lambda>x g. (x, g)),
      adam = (\<lambda>r. ()),
      optimizer_step = (\<lambda>opt v x g. (v, opt)),
      scheduler_step = (\<lambda>opt. opt)\<rparr>"

definition example_args :: "nat \<Rightarrow> int \<Rightarrow> args" where
  "example_args b n =
     \<lparr>beta_kl = Fin 1, batch = b, latent = 1, hidden = 1, epochs = n, rate = Fin (1 / 1000)\<rparr>"

text \<open>A model with 2 input features, 1 hidden feature and 3 latent features, all weights 1.\<close>

definition example_vae :: vae where
  "example_vae = fst (VAE (example_layer (Fin 1)) (example_layer (Fin 1)) 2 1 3 ())"

text \<open>
  An instance of the parameters of \<open>main\<close>: the split puts the first sample into the
  validation set, the model is the autoencoder of \<open>simulations.py\<close> with linear layers of
  weight \<open>w\<close>,
  \<open>train_vae\<close> makes one forward pass over the training data and returns its reconstruction
  error without changing the model, and the loss of a validation batch is its summed
  squared error.
\<close>

definition example_utils :: "fl \<Rightarrow> (vae, fl list, unit) utils" where
  "example_utils w =
     \<lparr>train_test_split =
        (\<lambda>s d. case d of [] \<Rightarrow> Inl ValueError | r # rs \<Rightarrow> Inr (rs, [r])),
      normalize_data = (\<lambda>d. d),
      new_model = (\<lambda>i l h g. VAE (example_layer (Fin 1)) (example_layer w) i h l g),
      new_optimizer = (\<lambda>r st. ()),
      train_vae =
        (\<lambda>m opt d b lt g.
           case forward example_normal m d g of Inl e \<Rightarrow> Inl e
           | Inr ((xh, mu, lv), g1) \<Rightarrow>
               (case rec_err xh d (length d) of Inl e \<Rightarrow> Inl e
                | Inr re \<Rightarrow> Inr (re, m, opt, g1))),
      model_eval = (\<lambda>m. m),
      model_forward = forward example_normal,
      model_encode = encode,
      loss_function = (\<lambda>xh x mu lv lt. rec_err xh x 1),
      sched_step = (\<lambda>opt. opt)\<rparr>"

definition example_main_args :: "int \<Rightarrow> int \<Rightarrow> main_args" where
  "example_main_args s n =
     \<lparr>seed = s, main_beta = Fin 1, main_batch = 1, main_latent = 1, main_hidden = 1,
      main_epochs = n, main_rate = Fin (5 / 1000), normalize = False, step_size = 10,
      main_min_delta = Fin (1 / 1000), loss_type = ''mse''\<rparr>"

section \<open>Elementwise operations on tensors of the same shape\<close>

abbreviation same_shape :: "'a list list \<Rightarrow> 'b list list \<Rightarrow> bool" where
  "same_shape a b \<equiv> list_all2 (\<lambda>r1 r2. length r1 = length r2) a b"

lemma row_binop_same: "length r1 = length r2 \<Longrightarrow> row_binop f r1 r2 = Inr (map2 f r1 r2)"
  by (simp add: row_binop_def bcast_def)

lemma collect_rows:
  "same_shape a b \<Longrightarrow>
   collect (map (\<lambda>(r1, r2). row_binop f r1 r2) (zip a b)) = Inr (map2 (map2 f) a b)"
  by (induction a b rule: list_all2_induct) (simp_all add: row_binop_same)

lemma t_binop_same: "same_shape a b \<Longrightarrow> t_binop f a b = Inr (map2 (map2 f) a b)"
  by (simp add: t_binop_def bcast_def list_all2_lengthD collect_rows)


lemma same_shape_sym: "same_shape a b \<Longrightarrow> same_shape b a"
  by (simp add: list_all2_conv_all_nth)

lemma same_shape_map: "same_shape a b \<Longrightarrow> same_shape (map (map f) a) (map (map g) b)"
  by (simp add: list_all2_conv_all_nth)



section \<open>The KL term\<close>







section \<open>The combined loss\<close>




section \<open>The encoder and the exported embeddings\<close>

lemma layer_forward_mismatch:
  "x \<noteq> [] \<Longrightarrow> \<forall>r \<in> set x. length r \<noteq> in_features l \<Longrightarrow> layer_forward l x = Inl RuntimeError"
  by (cases x) (simp_all add: layer_forward_def)

text \<open>
  C7. A batch whose samples have \<open>d\<close> features, \<open>d\<close> different from the \<open>input_dim\<close> the model
  was built with, makes \<open>encode\<close>, and so the forward pass, fail with the error PyTorch
  raises for sizes that do not fit. The failure comes from the first layer: no layer
  function is applied and nothing is drawn from the generator.
\<close>

theorem encode_wrong_feature_dimension:
  assumes "in_features (encoder_lstm v) = input_dim v"
    and "x \<noteq> []" and "\<forall>r \<in> set x. length r = d" and "d \<noteq> input_dim v"
  shows "encode v x = Inl RuntimeError \<and> forward nrm v x g = Inl RuntimeError"
proof -
  have "layer_forward (encoder_lstm v) x = Inl RuntimeError"
    using assms by (intro layer_forward_mismatch) auto
  then show ?thesis
    by (simp add: encode_def forward_def)
qed

theorem encode_wrong_feature_dimension_witness:
  "encode example_vae [[Fin 1, Fin 2, Fin 3]] = Inl RuntimeError \<and>
   forward example_normal example_vae [[Fin 1, Fin 2, Fin 3]] [] = Inl RuntimeError"
  using encode_wrong_feature_dimension
    [of example_vae "[[Fin 1, Fin 2, Fin 3]]" 3 example_normal "[]"]
  by (simp add: example_vae_def VAE_def example_layer_def)




lemma set_chunks: "c \<in> set (chunks n xs) \<Longrightarrow> set c \<subseteq> set xs"
proof (induction n xs rule: chunks.induct)
  case (1 n xs)
  show ?case
  proof (cases "n = 0 \<or> xs = []")
    case True
    with "1.prems" show ?thesis by (subst (asm) chunks.simps) simp
  next
    case False
    with "1.prems" have "c = take n xs \<or> c \<in> set (chunks n (drop n xs))"
      by (subst (asm) chunks.simps) simp
    then show ?thesis
      using "1.IH" [OF False] by (auto dest: in_set_takeD in_set_dropD)
  qed
qed





section \<open>Running the small instance\<close>

lemmas vae_simps = VAE_def example_layer_def forward_def encode_def decode_def sample_z_def
  layer_forward_def example_normal_def rec_err_def kl_divergence_def t_binop_def row_binop_def
  bcast_def t_map_def t_sum_def loss_def fl_sub_def fl_pow2_def

lemmas run_simps = training_def initial_state_def epoch_body_def example_torch_def
  example_args_def chunks.simps batch_step_def validation_def loader_len_def early_stopping_def
  patience_def min_delta_def Let_def upt_rec

lemmas main_simps = main_def main_loop_def main_initial_def main_epoch_def example_utils_def
  example_main_args_def chunks.simps save_embeddings_def early_stopping_def main_patience_def
  Let_def upt_rec

section \<open>The epoch loops\<close>


lemma for_epochs_empty: "for_epochs body is s = ([], None) \<Longrightarrow> is = []"
  by (cases "is") (auto split: sum.splits prod.splits if_splits)

lemma for_epochs_steps:
  assumes R: "\<forall>i s s' b. body i s = Inr (s', b) \<longrightarrow> R s s' b"
  shows "for_epochs body is s = (tr, err) \<Longrightarrow> k < length tr \<Longrightarrow>
     \<exists>b. R ((s # tr) ! k) (tr ! k) b \<and> (b \<longrightarrow> Suc k = length tr) \<and>
         (\<not> b \<longrightarrow> Suc k = length tr \<longrightarrow> err \<noteq> None \<or> length tr = length is)"
proof (induction "is" arbitrary: s tr err k)
  case Nil
  then show ?case by simp
next
  case (Cons i "is")
  show ?case
  proof (cases "body i s")
    case (Inl e)
    with Cons.prems show ?thesis by simp
  next
    case (Inr p)
    obtain s' brk where p: "p = (s', brk)" by (cases p)
    from R Inr p have step: "R s s' brk" by blast
    show ?thesis
    proof (cases brk)
      case True
      with Cons.prems Inr p step show ?thesis by auto
    next
      case False
      obtain tr' r where rest: "for_epochs body is s' = (tr', r)"
        by (cases "for_epochs body is s'")
      with Cons.prems Inr p False have tr: "tr = s' # tr'" and err: "err = r"
        by simp_all
      show ?thesis
      proof (cases k)
        case 0
        have "Suc 0 = length tr \<Longrightarrow> err \<noteq> None \<or> length tr = length (i # is)"
        proof -
          assume "Suc 0 = length tr"
          with tr have e: "tr' = []" by simp
          show ?thesis
          proof (cases r)
            case None
            with rest e have "is = []" by (simp add: for_epochs_empty)
            with tr e show ?thesis by simp
          next
            case (Some a)
            with err show ?thesis by simp
          qed
        qed
        with 0 tr step False show ?thesis by auto
      next
        case (Suc k')
        with Cons.prems tr have "k' < length tr'" by simp
        from Cons.IH [OF rest this] Suc tr err show ?thesis by auto
      qed
    qed
  qed
qed

lemma early_stopping_rule:
  assumes "early_stopping p delta c best v = ((c', best'), brk)" and "0 < p"
  shows "(if fl_less v (fl_sub best delta) then best' = v \<and> c' = 0
          else best' = best \<and> c' = c + 1) \<and> (brk \<longleftrightarrow> p \<le> c')"
  using assms by (auto simp: early_stopping_def split: if_splits)

lemma epoch_body_step:
  assumes "epoch_body env a xtrain xval i s = Inr (s', b)"
  shows "early_stopping patience min_delta (counter s) (best_val_loss s) (last (val_loss s')) =
           ((counter s', best_val_loss s'), b) \<and>
         (\<exists>x y. train_loss s' = train_loss s @ [x] \<and> val_loss s' = val_loss s @ [y])"
  using assms
  by (auto simp: epoch_body_def Let_def split: prod.splits sum.splits if_splits)

lemma main_epoch_step:
  assumes "main_epoch u a train_data val_data i s = Inr (s', b)"
  shows "early_stopping main_patience (main_min_delta a) (m_counter s) (m_best_val_loss s)
           (last (val_losses s')) = ((m_counter s', m_best_val_loss s'), b) \<and>
         (\<exists>x y. train_losses s' = train_losses s @ [x] \<and> val_losses s' = val_losses s @ [y])"
  using assms
  by (auto simp: main_epoch_def Let_def split: prod.splits sum.splits if_splits)

lemma early_stop_traceI:
  assumes steps: "\<forall>i s s' b. body i s = Inr (s', b) \<longrightarrow>
       early_stopping p delta (cnt s) (best s) (last (vals s')) = ((cnt s', best s'), b)"
    and p: "0 < p"
    and run: "for_epochs body is s0 = (tr, err)"
  shows "early_stop_trace p delta (length is) cnt best vals s0 tr err"
  unfolding early_stop_trace_def
proof (intro allI impI)
  fix k assume k: "k < length tr"
  from for_epochs_steps [OF steps run k]
  obtain b where e: "early_stopping p delta (cnt ((s0 # tr) ! k)) (best ((s0 # tr) ! k))
         (last (vals (tr ! k))) = ((cnt (tr ! k), best (tr ! k)), b)"
    and b1: "b \<longrightarrow> Suc k = length tr"
    and b2: "\<not> b \<longrightarrow> Suc k = length tr \<longrightarrow> err \<noteq> None \<or> length tr = length is"
    by blast
  note r = early_stopping_rule [OF e p]
  from r b1 b2 show "(if fl_less (last (vals (tr ! k))) (fl_sub (best ((s0 # tr) ! k)) delta)
         then best (tr ! k) = last (vals (tr ! k)) \<and> cnt (tr ! k) = 0
         else best (tr ! k) = best ((s0 # tr) ! k) \<and> cnt (tr ! k) = cnt ((s0 # tr) ! k) + 1) \<and>
        (p \<le> cnt (tr ! k) \<longrightarrow> Suc k = length tr) \<and>
        (Suc k = length tr \<and> cnt (tr ! k) < p \<longrightarrow> err \<noteq> None \<or> length tr = length is)"
    by auto
qed



lemma early_stopping_halts_at_patience_both:
  assumes "training env a xtrain xval g = (tr, err)"
    and "main_loop u ma train_data val_data s0 = (mtr, merr)"
  shows "early_stop_trace patience min_delta (nat (epochs a)) counter best_val_loss val_loss
           (initial_state env a xtrain g) tr err \<and>
         early_stop_trace main_patience (main_min_delta ma) (nat (main_epochs ma)) m_counter
           m_best_val_loss val_losses s0 mtr merr"
proof
  show "early_stop_trace patience min_delta (nat (epochs a)) counter best_val_loss val_loss
           (initial_state env a xtrain g) tr err"
  proof (cases "batch a = 0")
    case True
    with assms(1) show ?thesis by (simp add: training_def early_stop_trace_def)
  next
    case False
    with assms(1) have "for_epochs (epoch_body env a xtrain xval) [0..<nat (epochs a)]
             (initial_state env a xtrain g) = (tr, err)"
      by (simp add: training_def)
    moreover have "\<forall>i s s' b. epoch_body env a xtrain xval i s = Inr (s', b) \<longrightarrow>
        early_stopping patience min_delta (counter s) (best_val_loss s) (last (val_loss s')) =
          ((counter s', best_val_loss s'), b)"
      using epoch_body_step by blast
    moreover have "0 < patience"
      by (simp add: patience_def)
    ultimately show ?thesis
      using early_stop_traceI [of "epoch_body env a xtrain xval" patience min_delta counter
          best_val_loss val_loss "[0..<nat (epochs a)]"]
      by simp
  qed
next
  from assms(2) have "for_epochs (main_epoch u ma train_data val_data) [0..<nat (main_epochs ma)] s0 = (mtr, merr)"
    by (simp add: main_loop_def)
  moreover have "\<forall>i s s' b. main_epoch u ma train_data val_data i s = Inr (s', b) \<longrightarrow>
        early_stopping main_patience (main_min_delta ma) (m_counter s) (m_best_val_loss s)
          (last (val_losses s')) = ((m_counter s', m_best_val_loss s'), b)"
    using main_epoch_step by blast
  moreover have "0 < main_patience"
    by (simp add: main_patience_def)
  ultimately show "early_stop_trace main_patience (main_min_delta ma) (nat (main_epochs ma))
           m_counter m_best_val_loss val_losses s0 mtr merr"
    using early_stop_traceI [of "main_epoch u ma train_data val_data" main_patience
        "main_min_delta ma" m_counter m_best_val_loss val_losses "[0..<nat (main_epochs ma)]"]
    by simp
qed




text \<open>
  C2. In both scripts, after every epoch of a run: if the validation loss of the epoch is
  below \<open>best_val_loss - min_delta\<close>, it becomes the best loss and the counter is 0, otherwise
  the counter is one more than before; an epoch that leaves the counter at \<open>patience\<close> is the
  last epoch of the run; and a run that ends with the counter below \<open>patience\<close> has used up
  its epochs or was ended by an exception.
\<close>

theorem early_stopping_halts_at_patience:
  assumes "training env a xtrain xval g = (tr, err)"
    and "main_loop u ma train_data val_data s0 = (mtr, merr)"
  shows "early_stop_trace patience min_delta (nat (epochs a)) counter best_val_loss val_loss
           (initial_state env a xtrain g) tr err \<and>
         early_stop_trace main_patience (main_min_delta ma) (nat (main_epochs ma)) m_counter
           m_best_val_loss val_losses s0 mtr merr"
  using assms by (rule early_stopping_halts_at_patience_both)

theorem early_stopping_halts_at_patience_witness:
  "map counter (fst (training (example_torch (Fin 1)) (example_args 1 10) [[Fin 0]] [[Fin 0]] []))
     = [0, 1, 2, 3, 4, 5] \<and>
   map m_counter (fst (main_loop (example_utils (Fin 1)) (example_main_args 0 20) [[Fin 0]] [[Fin 0]]
       (main_initial (example_utils (Fin 1)) (example_main_args 0 20) [[Fin 0]] [])))
     = [0, 1, 2, 3, 4, 5, 6, 7, 8, 9, 10]"
  using early_stopping_halts_at_patience
    [of "example_torch (Fin 1)" "example_args 1 10" "[[Fin 0]]" "[[Fin 0]]" "[]"
        "fst (training (example_torch (Fin 1)) (example_args 1 10) [[Fin 0]] [[Fin 0]] [])"
        "snd (training (example_torch (Fin 1)) (example_args 1 10) [[Fin 0]] [[Fin 0]] [])"
        "example_utils (Fin 1)" "example_main_args 0 20" "[[Fin 0]]" "[[Fin 0]]"
        "main_initial (example_utils (Fin 1)) (example_main_args 0 20) [[Fin 0]] []"
        "fst (main_loop (example_utils (Fin 1)) (example_main_args 0 20) [[Fin 0]] [[Fin 0]]
       (main_initial (example_utils (Fin 1)) (example_main_args 0 20) [[Fin 0]] []))"
        "snd (main_loop (example_utils (Fin 1)) (example_main_args 0 20) [[Fin 0]] [[Fin 0]]
       (main_initial (example_utils (Fin 1)) (example_main_args 0 20) [[Fin 0]] []))"]
  by (simp add: vae_simps run_simps main_simps)



section \<open>Shapes and exceptions in the training loop of \<open>simulations.py\<close>\<close>

lemma is_shape_same: "is_shape n d a \<Longrightarrow> is_shape n d b \<Longrightarrow> same_shape a b"
  unfolding is_shape_def list_all2_conv_all_nth list_all_length by simp

lemma map2_shape: "same_shape a b \<Longrightarrow> is_shape n d b \<Longrightarrow> is_shape n d (map2 (map2 f) a b)"
  unfolding is_shape_def list_all2_conv_all_nth list_all_length by simp

lemma randn_row_length: "length (fst (randn_row nrm r g)) = length r"
proof (induction r arbitrary: g)
  case Nil
  then show ?case by simp
next
  case (Cons x r)
  obtain e g1 where a: "nrm g = (e, g1)" by (cases "nrm g")
  obtain es g2 where b: "randn_row nrm r g1 = (es, g2)" by (cases "randn_row nrm r g1")
  from Cons [of g1] b have "length es = length r" by simp
  then show ?case by (simp add: a b)
qed

lemma randn_like_shape: "same_shape (fst (randn_like nrm t g)) t"
proof (induction t arbitrary: g)
  case Nil
  then show ?case by simp
next
  case (Cons r t)
  obtain e g1 where a: "randn_row nrm r g = (e, g1)" by (cases "randn_row nrm r g")
  obtain es g2 where b: "randn_like nrm t g1 = (es, g2)" by (cases "randn_like nrm t g1")
  from randn_row_length [of nrm r g] a have "length e = length r" by simp
  moreover from Cons [of g1] b have "same_shape es t" by simp
  ultimately show ?case by (simp add: a b)
qed

lemma layer_forward_shape:
  assumes "layer_ok l i h" and "is_shape n i x"
  shows "\<exists>y. layer_forward l x = Inr y \<and> is_shape n h y"
  using assms unfolding layer_forward_def layer_ok_def is_shape_def list_all_iff by simp


lemma sample_z_shape:
  assumes "is_shape n d mu" and "is_shape n d logvar"
  shows "\<exists>z g1. sample_z nrm mu logvar g = Inr (z, g1) \<and> is_shape n d z"
proof -
  let ?std = "t_map (\<lambda>a. fl_exp (fl_mul (Fin (1 / 2)) a)) logvar"
  have s: "is_shape n d ?std"
    using assms(2) unfolding is_shape_def t_map_def list_all_iff by simp
  obtain eps g1 where r: "randn_like nrm ?std g = (eps, g1)"
    by (cases "randn_like nrm ?std g")
  with randn_like_shape [of nrm ?std g] have e: "same_shape eps ?std" by simp
  have m: "t_binop fl_mul eps ?std = Inr (map2 (map2 fl_mul) eps ?std)"
    using e by (rule t_binop_same)
  have ms: "is_shape n d (map2 (map2 fl_mul) eps ?std)"
    using e s by (rule map2_shape)
  have sm: "same_shape mu (map2 (map2 fl_mul) eps ?std)"
    using assms(1) ms by (rule is_shape_same)
  have a: "t_binop fl_add mu (map2 (map2 fl_mul) eps ?std) =
      Inr (map2 (map2 fl_add) mu (map2 (map2 fl_mul) eps ?std))"
    using sm by (rule t_binop_same)
  have "is_shape n d (map2 (map2 fl_add) mu (map2 (map2 fl_mul) eps ?std))"
    using sm ms by (rule map2_shape)
  then show ?thesis
    unfolding sample_z_def Let_def r by (simp add: m a)
qed


lemma forward_shape:
  assumes "vae_ok v" and "is_shape n (input_dim v) x"
  shows "\<exists>xhat mu logvar g1. forward nrm v x g = Inr ((xhat, mu, logvar), g1) \<and>
           same_shape xhat x \<and> same_shape mu logvar"
proof -
  from assms(1) have l1: "layer_ok (encoder_lstm v) (input_dim v) (hidden_dim v)"
    and l2: "layer_ok (encoder_fc_mu v) (hidden_dim v) (latent_dim v)"
    and l3: "layer_ok (encoder_fc_logvar v) (hidden_dim v) (latent_dim v)"
    and l4: "layer_ok (decoder_l1 v) (latent_dim v) (hidden_dim v)"
    and l5: "layer_ok (decoder_l2 v) (hidden_dim v) (input_dim v)"
    unfolding vae_ok_def by simp_all
  from layer_forward_shape [OF l1 assms(2)] obtain hid
    where h: "layer_forward (encoder_lstm v) x = Inr hid" "is_shape n (hidden_dim v) hid" by blast
  from layer_forward_shape [OF l2 h(2)] obtain mu
    where mu: "layer_forward (encoder_fc_mu v) hid = Inr mu" "is_shape n (latent_dim v) mu" by blast
  from layer_forward_shape [OF l3 h(2)] obtain logvar
    where lv: "layer_forward (encoder_fc_logvar v) hid = Inr logvar"
      "is_shape n (latent_dim v) logvar" by blast
  from sample_z_shape [OF mu(2) lv(2), of nrm g] obtain z g1
    where z: "sample_z nrm mu logvar g = Inr (z, g1)" "is_shape n (latent_dim v) z" by blast
  from layer_forward_shape [OF l4 z(2)] obtain out
    where o: "layer_forward (decoder_l1 v) z = Inr out" "is_shape n (hidden_dim v) out" by blast
  from layer_forward_shape [OF l5 o(2)] obtain xhat
    where xh: "layer_forward (decoder_l2 v) out = Inr xhat" "is_shape n (input_dim v) xhat" by blast
  have "forward nrm v x g = Inr ((xhat, mu, logvar), g1)"
    by (simp add: forward_def encode_def decode_def h mu lv z o xh)
  moreover have "same_shape xhat x"
    using xh(2) assms(2) by (rule is_shape_same)
  moreover have "same_shape mu logvar"
    using mu(2) lv(2) by (rule is_shape_same)
  ultimately show ?thesis by blast
qed

lemma rec_err_returns: "same_shape a b \<Longrightarrow> \<exists>v. rec_err a b n = Inr v"
  by (simp add: rec_err_def t_binop_same)

lemma kl_divergence_returns:
  assumes "same_shape mu logvar"
  shows "\<exists>v. kl_divergence mu logvar n = Inr v"
proof -
  let ?A = "map (map (fl_add (Fin 1))) logvar" and ?B = "map (map fl_pow2) mu"
    and ?C = "map (map fl_exp) logvar"
  have lm: "same_shape logvar mu"
    using assms by (rule same_shape_sym)
  have ab: "same_shape ?A ?B"
    using lm by (rule same_shape_map)
  have abc: "same_shape (map2 (map2 fl_sub) ?A ?B) ?C"
    using lm unfolding list_all2_conv_all_nth by simp
  show ?thesis
    unfolding kl_divergence_def t_map_def by (simp add: t_binop_same [OF ab] t_binop_same [OF abc])
qed


lemma batch_step_returns:
  assumes "torch_ok env" and "vae_ok (r_model r)" and "input_dim (r_model r) = d"
    and "\<forall>row \<in> set inputs. length row = d"
  shows "\<exists>r'. batch_step env a r inputs = Inr r' \<and> vae_ok (r_model r') \<and>
              input_dim (r_model r') = d"
proof -
  have sh: "is_shape (length inputs) (input_dim (r_model r)) inputs"
    using assms(3,4) unfolding is_shape_def list_all_iff by simp
  from forward_shape [OF assms(2) sh, of "normal env" "r_generator r"]
  obtain xhat mu logvar g1
    where f: "forward (normal env) (r_model r) inputs (r_generator r) = Inr ((xhat, mu, logvar), g1)"
      and s1: "same_shape xhat inputs" and s2: "same_shape mu logvar"
    by blast
  from rec_err_returns [OF s1] obtain re where re: "rec_err xhat inputs (batch a) = Inr re"
    by blast
  from kl_divergence_returns [OF s2] obtain kl where kl: "kl_divergence mu logvar (batch a) = Inr kl"
    by blast
  obtain v opt where o: "optimizer_step env (r_optimizer r) (r_model r) inputs (r_generator r) = (v, opt)"
    by (cases "optimizer_step env (r_optimizer r) (r_model r) inputs (r_generator r)")
  from assms(1,2) have "vae_ok (fst (optimizer_step env (r_optimizer r) (r_model r) inputs (r_generator r))) \<and>
      input_dim (fst (optimizer_step env (r_optimizer r) (r_model r) inputs (r_generator r))) = input_dim (r_model r)"
    unfolding torch_ok_def by blast
  with o assms(3) have "vae_ok v" "input_dim v = d" by simp_all
  then show ?thesis
    unfolding batch_step_def by (simp add: f re kl o)
qed

lemma train_batches_returns:
  assumes "torch_ok env"
  shows "vae_ok (r_model r) \<Longrightarrow> input_dim (r_model r) = d \<Longrightarrow>
     \<forall>c \<in> set cs. \<forall>row \<in> set c. length row = d \<Longrightarrow>
     \<exists>r'. train_batches env a cs r = Inr r' \<and> vae_ok (r_model r') \<and> input_dim (r_model r') = d"
proof (induction cs arbitrary: r)
  case Nil
  then show ?case by simp
next
  case (Cons c cs)
  from Cons.prems have "\<forall>row \<in> set c. length row = d" by simp
  from batch_step_returns [OF assms Cons.prems(1,2) this, of a]
  obtain r1 where r1: "batch_step env a r c = Inr r1" "vae_ok (r_model r1)"
      "input_dim (r_model r1) = d" by blast
  from Cons.prems have "\<forall>c \<in> set cs. \<forall>row \<in> set c. length row = d" by simp
  from Cons.IH [OF r1(2,3) this] r1(1) show ?case by simp
qed

lemma validation_returns:
  assumes "vae_ok v" and "input_dim v = d" and "\<forall>row \<in> set xval. length row = d"
  shows "\<exists>l g1. validation env a v xval g = Inr (l, g1)"
proof -
  have sh: "is_shape (length xval) (input_dim v) xval"
    using assms(2,3) unfolding is_shape_def list_all_iff by simp
  from forward_shape [OF assms(1) sh, of "normal env" g]
  obtain xhat mu logvar g1
    where f: "forward (normal env) v xval g = Inr ((xhat, mu, logvar), g1)"
      and s1: "same_shape xhat xval" and s2: "same_shape mu logvar"
    by blast
  from rec_err_returns [OF s1] obtain re where re: "rec_err xhat xval (length xhat) = Inr re"
    by blast
  from kl_divergence_returns [OF s2] obtain kl where kl: "kl_divergence mu logvar (length xhat) = Inr kl"
    by blast
  show ?thesis
    unfolding validation_def by (simp add: f re kl)
qed

lemma loader_len_pos: "0 < n \<Longrightarrow> 0 < b \<Longrightarrow> 0 < loader_len n b"
  unfolding loader_len_def by (simp add: div_greater_zero_iff)

lemma epoch_body_returns:
  assumes "torch_ok env" and "0 < batch a" and "xtrain \<noteq> []"
    and "\<forall>row \<in> set xtrain. length row = d" and "\<forall>row \<in> set xval. length row = d"
    and "vae_ok (model s)" and "input_dim (model s) = d"
  shows "\<exists>s' b. epoch_body env a xtrain xval i s = Inr (s', b) \<and> vae_ok (model s') \<and>
               input_dim (model s') = d"
proof -
  obtain xs g0 where sh: "shuffle env xtrain (generator s) = (xs, g0)"
    by (cases "shuffle env xtrain (generator s)")
  from assms(1) have "set (fst (shuffle env xtrain (generator s))) \<subseteq> set xtrain"
    unfolding torch_ok_def by blast
  with sh have "set xs \<subseteq> set xtrain" by simp
  with assms(4) have rows: "\<forall>c \<in> set (chunks (batch a) xs). \<forall>row \<in> set c. length row = d"
    using set_chunks by blast
  let ?r0 = "\<lparr>r_model = model s, r_optimizer = optimizer s, r_generator = g0,
               running_loss = Fin 0, running_kl_loss = Fin 0, running_rec_loss = Fin 0\<rparr>"
  have "vae_ok (r_model ?r0)" "input_dim (r_model ?r0) = d"
    using assms(6,7) by simp_all
  from train_batches_returns [OF assms(1) this rows, of a]
  obtain r where r: "train_batches env a (chunks (batch a) xs) ?r0 = Inr r"
     "vae_ok (r_model r)" "input_dim (r_model r) = d" by blast
  from validation_returns [OF r(2,3) assms(5), of env a "r_generator r"]
  obtain l g2 where v: "validation env a (r_model r) xval (r_generator r) = Inr (l, g2)"
    by blast
  have n: "loader_len (length xtrain) (batch a) \<noteq> 0"
    using loader_len_pos [of "length xtrain" "batch a"] assms(2,3) by simp
  show ?thesis
    unfolding epoch_body_def using r(2,3) n
    by (simp add: sh r(1) v Let_def split: prod.splits)
qed

lemma for_epochs_no_error:
  assumes "\<forall>i s. P s \<longrightarrow> (\<exists>s' b. body i s = Inr (s', b) \<and> P s')"
  shows "P s \<Longrightarrow> snd (for_epochs body is s) = None"
proof (induction "is" arbitrary: s)
  case Nil
  then show ?case by simp
next
  case (Cons i "is")
  from assms Cons.prems obtain s' b where b: "body i s = Inr (s', b)" "P s'" by blast
  from Cons.IH [OF b(2)] show ?case
    by (auto simp: b(1) split: prod.splits)
qed

lemma VAE_ok:
  assumes a1: "\<forall>i h g r. length r = i \<longrightarrow> length (fst (li i h g) r) = h"
    and a2: "\<forall>i h g r. length r = i \<longrightarrow> length (fst (lin i h g) r) = h"
  shows "vae_ok (fst (VAE li lin i h l g)) \<and> input_dim (fst (VAE li lin i h l g)) = i"
proof -
  obtain k1 g1 where k1: "li i h g = (k1, g1)" by (cases "li i h g")
  obtain k2 g2 where k2: "lin h l g1 = (k2, g2)" by (cases "lin h l g1")
  obtain k3 g3 where k3: "lin h l g2 = (k3, g3)" by (cases "lin h l g2")
  obtain k4 g4 where k4: "lin l h g3 = (k4, g4)" by (cases "lin l h g3")
  obtain k5 g5 where k5: "li h i g4 = (k5, g5)" by (cases "li h i g4")
  have c1: "\<forall>r. length r = i \<longrightarrow> length (k1 r) = h"
    using a1 [rule_format, of _ i h g] k1 by simp
  have c2: "\<forall>r. length r = h \<longrightarrow> length (k2 r) = l"
    using a2 [rule_format, of _ h l g1] k2 by simp
  have c3: "\<forall>r. length r = h \<longrightarrow> length (k3 r) = l"
    using a2 [rule_format, of _ h l g2] k3 by simp
  have c4: "\<forall>r. length r = l \<longrightarrow> length (k4 r) = h"
    using a2 [rule_format, of _ l h g3] k4 by simp
  have c5: "\<forall>r. length r = h \<longrightarrow> length (k5 r) = i"
    using a1 [rule_format, of _ h i g4] k5 by simp
  show ?thesis
    unfolding VAE_def vae_ok_def layer_ok_def using c1 c2 c3 c4 c5
    by (simp add: k1 k2 k3 k4 k5)
qed

lemma initial_state_ok:
  assumes "torch_ok env"
  shows "vae_ok (model (initial_state env a xtrain g)) \<and>
         input_dim (model (initial_state env a xtrain g)) = (case xtrain of [] \<Rightarrow> 0 | r # _ \<Rightarrow> length r)"
proof -
  from assms have a1: "\<forall>i h g r. length r = i \<longrightarrow> length (fst (lstm_init env i h g) r) = h"
    and a2: "\<forall>i h g r. length r = i \<longrightarrow> length (fst (linear_init env i h g) r) = h"
    unfolding torch_ok_def by blast+
  from VAE_ok [OF a1 a2] show ?thesis
    unfolding initial_state_def by (simp split: prod.splits) (metis fst_conv)
qed

lemma fl_less_non_finite: "v = NaN \<or> v = PInf \<Longrightarrow> \<not> fl_less v y"
  by (cases y) auto

lemma non_finite_traceI:
  assumes "early_stop_trace p delta budget cnt best vals s0 tr err"
  shows "non_finite_trace p budget cnt best vals s0 tr err"
  unfolding non_finite_trace_def
proof (intro allI impI)
  fix k
  assume k: "k < length tr"
    and v: "last (vals (tr ! k)) = NaN \<or> last (vals (tr ! k)) = PInf"
  from v have nl: "\<not> fl_less (last (vals (tr ! k))) (fl_sub (best ((s0 # tr) ! k)) delta)"
    by (rule fl_less_non_finite)
  from assms k have
    "(if fl_less (last (vals (tr ! k))) (fl_sub (best ((s0 # tr) ! k)) delta)
         then best (tr ! k) = last (vals (tr ! k)) \<and> cnt (tr ! k) = 0
         else best (tr ! k) = best ((s0 # tr) ! k) \<and> cnt (tr ! k) = cnt ((s0 # tr) ! k) + 1)"
    and e: "Suc k = length tr \<and> cnt (tr ! k) < p \<longrightarrow> err \<noteq> None \<or> length tr = budget"
    unfolding early_stop_trace_def by blast+
  with nl have r: "best (tr ! k) = best ((s0 # tr) ! k)" "cnt (tr ! k) = cnt ((s0 # tr) ! k) + 1"
    by simp_all
  have "Suc k < length tr \<or> err \<noteq> None" if "cnt (tr ! k) < p" "Suc k < budget"
    using that e k by (cases "Suc k = length tr") auto
  with r show "cnt (tr ! k) = cnt ((s0 # tr) ! k) + 1 \<and> best (tr ! k) = best ((s0 # tr) ! k) \<and>
        (cnt (tr ! k) < p \<and> Suc k < budget \<longrightarrow> Suc k < length tr \<or> err \<noteq> None)"
    by blast
qed

lemma training_no_exception:
  assumes "torch_ok env" and "0 < batch a" and "xtrain \<noteq> []"
    and "\<forall>row \<in> set xtrain. length row = d" and "\<forall>row \<in> set xval. length row = d"
  shows "snd (training env a xtrain xval g) = None"
proof -
  let ?P = "\<lambda>s. vae_ok (model s) \<and> input_dim (model s) = d"
  have step: "\<forall>i s. ?P s \<longrightarrow>
      (\<exists>s' b. epoch_body env a xtrain xval i s = Inr (s', b) \<and> ?P s')"
    using epoch_body_returns [OF assms] by blast
  obtain r rs where x: "xtrain = r # rs"
    using assms(3) by (cases xtrain) auto
  with assms(4) have "(case xtrain of [] \<Rightarrow> 0 | r # _ \<Rightarrow> length r) = d"
    by simp
  with initial_state_ok [OF assms(1), of a xtrain g] have "?P (initial_state env a xtrain g)"
    by simp
  from for_epochs_no_error [of ?P "epoch_body env a xtrain xval", OF step this]
  show ?thesis
    using assms(2) unfolding training_def by simp
qed

section \<open>Non-finite losses\<close>

text \<open>
  C8, as the code has it. Neither loop looks at whether a loss is finite. In
  \<open>simulations.py\<close>, for training and validation samples of one length \<open>d\<close> and a batch
  size above 0, the run raises no exception, whatever the values of the losses. In both
  scripts an epoch whose validation loss is NaN or \<open>+inf\<close> is an epoch without improvement:
  the best loss stays, the counter goes up by one, and the next epoch follows unless the
  counter has reached \<open>patience\<close> or the epochs are used up (in \<open>main\<close> a call into \<open>utils\<close> may
  raise).
\<close>

theorem non_finite_loss_is_not_detected:
  assumes "training env a xtrain xval g = (tr, err)"
    and "main_loop u ma train_data val_data s0 = (mtr, merr)"
    and "torch_ok env" and "0 < batch a" and "xtrain \<noteq> []"
    and "\<forall>row \<in> set xtrain. length row = d" and "\<forall>row \<in> set xval. length row = d"
  shows "err = None \<and>
         non_finite_trace patience (nat (epochs a)) counter best_val_loss val_loss
           (initial_state env a xtrain g) tr err \<and>
         non_finite_trace main_patience (nat (main_epochs ma)) m_counter m_best_val_loss
           val_losses s0 mtr merr"
proof -
  from training_no_exception [OF assms(3-7), of g] assms(1) have "err = None"
    by simp
  moreover from early_stopping_halts_at_patience_both [OF assms(1,2)]
  have "non_finite_trace patience (nat (epochs a)) counter best_val_loss val_loss
           (initial_state env a xtrain g) tr err"
    and "non_finite_trace main_patience (nat (main_epochs ma)) m_counter m_best_val_loss
           val_losses s0 mtr merr"
    by (blast intro: non_finite_traceI)+
  ultimately show ?thesis by simp
qed

lemma example_torch_ok: "torch_ok (example_torch w)"
  unfolding torch_ok_def example_torch_def example_layer_def by simp


theorem non_finite_loss_is_not_detected_witness:
  "snd (training (example_torch NaN) (example_args 1 3) [[Fin 0]] [[Fin 0]] []) = None \<and>
   map counter (fst (training (example_torch NaN) (example_args 1 3) [[Fin 0]] [[Fin 0]] []))
     = [1, 2, 3] \<and>
   map best_val_loss (fst (training (example_torch NaN) (example_args 1 3) [[Fin 0]] [[Fin 0]] []))
     = [PInf, PInf, PInf] \<and>
   map m_counter (fst (main_loop (example_utils NaN) (example_main_args 0 2) [[Fin 0]] [[Fin 0]]
       (main_initial (example_utils NaN) (example_main_args 0 2) [[Fin 0]] [])))
     = [1, 2]"
  using non_finite_loss_is_not_detected
    [of "example_torch NaN" "example_args 1 3" "[[Fin 0]]" "[[Fin 0]]" "[]"
        "fst (training (example_torch NaN) (example_args 1 3) [[Fin 0]] [[Fin 0]] [])"
        "snd (training (example_torch NaN) (example_args 1 3) [[Fin 0]] [[Fin 0]] [])"
        "example_utils NaN" "example_main_args 0 2" "[[Fin 0]]" "[[Fin 0]]"
        "main_initial (example_utils NaN) (example_main_args 0 2) [[Fin 0]] []"
        "fst (main_loop (example_utils NaN) (example_main_args 0 2) [[Fin 0]] [[Fin 0]]
       (main_initial (example_utils NaN) (example_main_args 0 2) [[Fin 0]] []))"
        "snd (main_loop (example_utils NaN) (example_main_args 0 2) [[Fin 0]] [[Fin 0]]
       (main_initial (example_utils NaN) (example_main_args 0 2) [[Fin 0]] []))"
        1]
    example_torch_ok [of NaN]
  by (simp add: vae_simps run_simps main_simps)

text \<open>
  C8 as stated fails. With linear layers whose weights are NaN the loss of every training
  step is NaN; the run raises nothing, carries out both epochs and records NaN in the
  curves.
\<close>

theorem nan_loss_run_continues:
  "snd (training (example_torch NaN) (example_args 1 2) [[Fin 0], [Fin 0]] [[Fin 0]] []) = None \<and>
   map train_loss (fst (training (example_torch NaN) (example_args 1 2) [[Fin 0], [Fin 0]]
       [[Fin 0]] [])) = [[NaN], [NaN, NaN]] \<and>
   map val_loss (fst (training (example_torch NaN) (example_args 1 2) [[Fin 0], [Fin 0]]
       [[Fin 0]] [])) = [[NaN], [NaN, NaN]]"
  by (simp add: vae_simps run_simps)

section \<open>Where the code departs from the specification\<close>

text \<open>
  C3. The value recorded as the validation loss of an epoch is the combined loss of the
  validation pass divided by \<open>len(data_loader)\<close>, the number of training batches. With two
  training batches and a validation pass whose combined loss is 4, the recorded value is 2.
\<close>

theorem recorded_validation_loss_divided_by_batches:
  "validation (example_torch (Fin 1)) (example_args 1 1)
     (model (initial_state (example_torch (Fin 1)) (example_args 1 1) [[Fin 0], [Fin 0]] []))
     [[Fin 0]] [Fin 2] = Inr (Fin 4, []) \<and>
   map val_loss (fst (training (example_torch (Fin 1)) (example_args 1 1) [[Fin 0], [Fin 0]]
       [[Fin 0]] [Fin 0, Fin 0, Fin 2])) = [[Fin 2]]"
  by (simp add: vae_simps run_simps)

text \<open>
  C6. In the batch loop the reconstruction term is divided by the \<open>batch_size\<close> option, not
  by the number of samples of the batch. Three samples in batches of two leave a last batch
  of one sample; for a reconstruction that is off by 1 on that sample the term is 1/2,
  while the validation pass, which divides by the number of samples, gives 1.
\<close>

theorem rec_err_of_partial_batch:
  "chunks 2 [[Fin 0], [Fin 0], [Fin 0]] = [[[Fin 0], [Fin 0]], [[Fin 0]]] \<and>
   forward example_normal (fst (VAE (example_layer (Fin 1)) (example_layer (Fin 1)) 1 1 1 ()))
     [[Fin 0]] [Fin 1] = Inr (([[Fin 1]], [[Fin 0]], [[Fin 0]]), []) \<and>
   map_sum id running_rec_loss
     (batch_step (example_torch (Fin 1)) (example_args 2 1)
        \<lparr>r_model = fst (VAE (example_layer (Fin 1)) (example_layer (Fin 1)) 1 1 1 ()),
         r_optimizer = (), r_generator = [Fin 1], running_loss = Fin 0,
         running_kl_loss = Fin 0, running_rec_loss = Fin 0\<rparr> [[Fin 0]]) = Inr (Fin (1 / 2)) \<and>
   rec_err [[Fin 1]] [[Fin 0]] (length [[Fin 1 :: fl]]) = Inr (Fin 1)"
  by (simp add: vae_simps run_simps)

text \<open>The seed of \<open>main\<close> acts through the split alone.\<close>

lemma validate_batches_seed:
  "validate_batches u (a\<lparr>seed := s\<rparr>) m xs acc g = validate_batches u a m xs acc g"
  by (induction xs arbitrary: acc g) (auto split: sum.splits prod.splits)

lemma main_epoch_seed:
  "main_epoch u (a\<lparr>seed := s\<rparr>) train_data val_data = main_epoch u a train_data val_data"
  by (auto simp: main_epoch_def validate_batches_seed fun_eq_iff split: sum.splits prod.splits)

lemma main_seed_only_split:
  assumes "train_test_split u s1 = train_test_split u s2"
  shows "main u (a\<lparr>seed := s1\<rparr>) data0 g = main u (a\<lparr>seed := s2\<rparr>) data0 g"
  using assms
  by (auto simp: main_def main_loop_def main_epoch_seed main_initial_def Let_def
      split: sum.splits prod.splits option.splits)

text \<open>
  C1. The seed reaches only \<open>train_test_split\<close>, and neither script seeds the generator.
  Two runs of \<open>main\<close> with the same seed, data and options, started with the generator in
  two different states, record different losses; so do two runs of the training loop of
  \<open>simulations.py\<close> with the same data and options.
\<close>

theorem same_seed_different_runs:
  "main (example_utils (Fin 1)) (example_main_args 0 1) [[Fin 0], [Fin 0]] [Fin 1, Fin 1] =
     Inr \<lparr>out_train_losses = [Fin 1], out_val_losses = [Fin 1],
          out_embeddings = [[Fin 0], [Fin 0]]\<rparr> \<and>
   main (example_utils (Fin 1)) (example_main_args 0 1) [[Fin 0], [Fin 0]] [Fin 2, Fin 2] =
     Inr \<lparr>out_train_losses = [Fin 4], out_val_losses = [Fin 4],
          out_embeddings = [[Fin 0], [Fin 0]]\<rparr> \<and>
   map train_loss (fst (training (example_torch (Fin 1)) (example_args 1 1) [[Fin 0]] [[Fin 0]]
       [Fin 1, Fin 1])) = [[Fin 1]] \<and>
   map train_loss (fst (training (example_torch (Fin 1)) (example_args 1 1) [[Fin 0]] [[Fin 0]]
       [Fin 2, Fin 2])) = [[Fin 4]]"
  by (simp add: vae_simps main_simps run_simps)

end
